theory Spec2Isabelle
  imports Main "HOL-Library.Word" "HOL-Library.Multiset"
begin

unbundle bit_operations_syntax

section \<open>Values\<close>

text \<open>
  Identities are 128-bit values (Python's \<open>uuid.UUID\<close>), and \<open>str_uuid\<close> is
  \<open>str(uuid)\<close>, the canonical 36-character text. A column of type \<open>UUIDString\<close>
  holds that text; the identity field of a row is the value whose text the column holds.
  What a Python object holds in an identity attribute is another matter (\<open>ident\<close>,
  below): the repositories are modelled on rows, and an attribute of an entity is
  compared with an attribute the caller holds through \<open>loaded_value\<close>.

  A \<open>datetime\<close> is a count of microseconds. What \<open>datetime.now()\<close> and
  \<open>uuid.uuid4()\<close> return is decided by the environment: every operation that calls them
  takes their results as arguments (\<open>now\<close>, \<open>uuid4\<close>). An argument that the
  source names as a field is named shortly here (\<open>oid\<close> for \<open>organization_id\<close>,
  \<open>rid\<close> for \<open>resource_id\<close>, \<open>st\<close> for \<open>status\<close>, and so on): the field names are
  the selectors of the records.
\<close>

type_synonym uuid = "128 word"

type_synonym datetime = int

definition hex_digits :: "uuid \<Rightarrow> string" where
  "hex_digits u =
     map (\<lambda>i. ''0123456789abcdef'' ! unat (drop_bit (4 * i) u AND 15)) (rev [0..<32])"

definition str_uuid :: "uuid \<Rightarrow> string" where
  "str_uuid u =
     (let h = hex_digits u
      in take 8 h @ ''-'' @ take 4 (drop 8 h) @ ''-'' @ take 4 (drop 12 h) @ ''-'' @
         take 4 (drop 16 h) @ ''-'' @ drop 20 h)"

text \<open>
  What an identity attribute of a Python object holds: a \<open>uuid.UUID\<close> object or a
  \<open>str\<close>. Python's \<open>==\<close> on them is equality of this type: two \<open>UUID\<close>s are equal
  when their values are, two strings when their characters are, and a \<open>UUID\<close> is never
  equal to a string.
\<close>

datatype ident = UUID uuid | Str string

text \<open>\<open>str(value)\<close>.\<close>

fun py_str :: "ident \<Rightarrow> string" where
  "py_str (UUID u) = str_uuid u"
| "py_str (Str s) = s"

text \<open>\<open>UUIDString\<close> (models.py): a value that is not \<open>None\<close> is bound as its text, and
  what the column holds is handed back as it is, a \<open>str\<close>.\<close>

definition process_bind_param :: "ident option \<Rightarrow> string option" where
  "process_bind_param v = (case v of Some x \<Rightarrow> Some (py_str x) | None \<Rightarrow> None)"

definition process_result_value :: "string option \<Rightarrow> ident option" where
  "process_result_value v = (case v of Some s \<Rightarrow> Some (Str s) | None \<Rightarrow> None)"

text \<open>
  \<open>loaded_value v\<close> is what an entity holds in an identity attribute after a query or
  \<open>session.refresh\<close> has loaded it from a row whose field is \<open>v\<close>: the column's text. Every
  entity that a repository method returns has been loaded so. \<open>held_as a v\<close> says that
  the attribute value \<open>a\<close> of an object the caller holds stands for the identity \<open>v\<close>: it
  is bound as the text of \<open>v\<close>. That is so for the \<open>UUID\<close> object of \<open>v\<close> and for the
  canonical text of \<open>v\<close>.
\<close>

definition loaded_value :: "uuid \<Rightarrow> ident option" where
  "loaded_value v = process_result_value (Some (str_uuid v))"

definition held_as :: "ident \<Rightarrow> uuid \<Rightarrow> bool" where
  "held_as a v = (process_bind_param (Some a) = Some (str_uuid v))"

text \<open>enums.py. A \<open>StrEnum\<close> member is equal to its string: the argument
  \<open>"available"\<close> of \<open>update_resource_status\<close> is the member \<open>available\<close>. The status
  column is an enum column, so the status argument ranges over the members.\<close>

datatype ResourceType = "file" | meeting | website

datatype ResourceStatus = pending | failed | available

text \<open>The payload of a chat message: a JSON object, kept as the list of its items.\<close>

datatype json =
  JNull | JBool bool | JNum int | JStr string | JList "json list" | JDict "(string \<times> json) list"

section \<open>Entity schema (models.py)\<close>

record BaseTable =
  updated_at :: "datetime option"
  created_at :: datetime

record BaseOrganizationTable = BaseTable +
  organization_id :: uuid

record User = BaseTable +
  user_id :: uuid
  first_name :: string
  last_name :: string
  phone :: string
  email :: string
  password :: string

record Organization = BaseOrganizationTable +
  name :: string
  timezone :: string
  status :: string

record OrganizationUser = BaseOrganizationTable +
  user_id :: uuid
  status :: string

record CollectionResource = BaseOrganizationTable +
  collection_id :: uuid
  resource_id :: uuid

record Resource = BaseOrganizationTable +
  resource_id :: uuid
  source_entity_type :: ResourceType
  source_entity_id :: uuid
  status :: ResourceStatus
  name :: string
  ai_summary :: "string option"

record File = BaseOrganizationTable +
  file_id :: uuid
  resource_id :: uuid
  name :: string
  path :: string
  mime_type :: string
  user_id :: uuid
  deleted :: "bool option"

record Meeting = BaseOrganizationTable +
  meeting_id :: uuid
  resource_id :: uuid
  provider_meeting_id :: "string option"
  provider_meeting_password :: "string option"
  provider_meeting_url :: "string option"
  provider :: string
  status :: string
  status_updated_at :: datetime
  transcriptions :: "string option"
  user_id :: uuid

record Website = BaseOrganizationTable +
  website_id :: uuid
  resource_id :: uuid
  name :: string
  url :: string
  parsed_urls :: "string option"
  user_id :: "uuid option"

record Chat = BaseOrganizationTable +
  chat_id :: uuid
  owner_user_id :: uuid
  type :: string
  summary :: "string option"
  name :: string

record ChatMessage = BaseOrganizationTable +
  chat_id :: uuid
  message_id :: uuid
  user_id :: "uuid option"
  type :: string
  content :: string
  arguments :: "(string \<times> json) list"
  is_summarized :: bool

text \<open>The primary key of each table: the fields declared \<open>primary_key=True\<close>, those of
  the base class first.\<close>

definition User_pk :: "User \<Rightarrow> uuid" where
  "User_pk u = User.user_id u"

definition Organization_pk :: "Organization \<Rightarrow> uuid" where
  "Organization_pk organization = organization_id organization"

definition OrganizationUser_pk :: "OrganizationUser \<Rightarrow> uuid \<times> uuid" where
  "OrganizationUser_pk ou = (organization_id ou, OrganizationUser.user_id ou)"

definition CollectionResource_pk :: "CollectionResource \<Rightarrow> uuid \<times> uuid \<times> uuid" where
  "CollectionResource_pk cr =
     (organization_id cr, CollectionResource.collection_id cr, CollectionResource.resource_id cr)"

definition Resource_pk :: "Resource \<Rightarrow> uuid \<times> uuid" where
  "Resource_pk r = (organization_id r, Resource.resource_id r)"

definition File_pk :: "File \<Rightarrow> uuid \<times> uuid" where
  "File_pk f = (organization_id f, File.file_id f)"

definition Meeting_pk :: "Meeting \<Rightarrow> uuid \<times> uuid" where
  "Meeting_pk m = (organization_id m, Meeting.meeting_id m)"

definition Website_pk :: "Website \<Rightarrow> uuid \<times> uuid" where
  "Website_pk w = (organization_id w, Website.website_id w)"

definition Chat_pk :: "Chat \<Rightarrow> uuid \<times> uuid" where
  "Chat_pk c = (organization_id c, Chat.chat_id c)"

definition ChatMessage_pk :: "ChatMessage \<Rightarrow> uuid \<times> uuid \<times> uuid" where
  "ChatMessage_pk m = (organization_id m, ChatMessage.chat_id m, ChatMessage.message_id m)"

section \<open>The shards\<close>

text \<open>
  One field per table, named as \<open>BaseTable.__tablename__\<close> names it. A table is the list
  of its rows in the order the engine scans them: a committed new row goes last, an
  update keeps a row's place.
\<close>

record db =
  users :: "User list"
  organizations :: "Organization list"
  organization_users :: "OrganizationUser list"
  collection_resources :: "CollectionResource list"
  resources :: "Resource list"
  files :: "File list"
  meetings :: "Meeting list"
  websites :: "Website list"
  chats :: "Chat list"
  chat_messages :: "ChatMessage list"

text \<open>
  What a call raises. \<open>AttributeError\<close> and \<open>IndexError\<close> are Python's. The next four
  are SQLAlchemy's: \<open>IntegrityError\<close> (a write the table's primary key refuses),
  \<open>InvalidRequestError\<close> (a refresh that finds no row), \<open>StaleDataError\<close> (an update
  that finds no row) and \<open>OperationalError\<close> (the engine cannot be reached).
  \<open>NotFoundError\<close> and \<open>PersistenceError\<close> are the names of the specification's
  taxonomy: no statement of repos.py raises them, and no module of the repository
  declares them.
\<close>

datatype error =
  AttributeError | IndexError | IntegrityError | InvalidRequestError
  | StaleDataError | OperationalError
  | NotFoundError | PersistenceError

section \<open>The session\<close>

text \<open>\<open>session.exec(select(T).where(P)).first()\<close> and \<open>.all()\<close>.\<close>

definition exec_first :: "('r \<Rightarrow> bool) \<Rightarrow> 'r list \<Rightarrow> 'r option" where
  "exec_first P tbl = find P tbl"

definition exec_all :: "('r \<Rightarrow> bool) \<Rightarrow> 'r list \<Rightarrow> 'r list" where
  "exec_all P tbl = filter P tbl"

text \<open>\<open>session.add(obj); session.commit()\<close> for a new object is an insert, which the
  engine refuses when a row with the object's primary key exists; for a loaded object
  that was changed it is an update of the row with that primary key.\<close>

definition session_insert :: "('r \<Rightarrow> 'k) \<Rightarrow> 'r list \<Rightarrow> 'r \<Rightarrow> error + 'r list" where
  "session_insert pk tbl obj =
     (if pk obj \<in> set (map pk tbl) then Inl IntegrityError else Inr (tbl @ [obj]))"

definition session_update :: "('r \<Rightarrow> 'k) \<Rightarrow> 'r list \<Rightarrow> 'r \<Rightarrow> 'r list" where
  "session_update pk tbl obj = map (\<lambda>r. if pk r = pk obj then obj else r) tbl"

text \<open>\<open>session.refresh(obj)\<close> loads the row with the object's primary key. The result
  is that row; what the reloaded object holds in an identity attribute is
  \<open>loaded_value\<close> of the row's field.\<close>

definition session_refresh :: "('r \<Rightarrow> 'k) \<Rightarrow> 'r list \<Rightarrow> 'r \<Rightarrow> error + 'r" where
  "session_refresh pk tbl obj =
     (case find (\<lambda>r. pk r = pk obj) tbl of
        None \<Rightarrow> Inl InvalidRequestError
      | Some r \<Rightarrow> Inr r)"

text \<open>\<open>BaseRepo._commit_object\<close> on a freshly built object, with the engine reachable:
  add, commit, refresh, with no handler around them. The result is the table after the
  call and what the call returns or raises. This is how every \<open>create_*\<close> and
  \<open>get_default_*\<close> method calls it.\<close>

definition commit_object :: "('r \<Rightarrow> 'k) \<Rightarrow> 'r list \<Rightarrow> 'r \<Rightarrow> 'r list \<times> (error + 'r)" where
  "commit_object pk tbl obj =
     (case session_insert pk tbl obj of
        Inl e \<Rightarrow> (tbl, Inl e)
      | Inr tbl' \<Rightarrow> (tbl', session_refresh pk tbl' obj))"







section \<open>Repositories (repos.py)\<close>

text \<open>
  Every method takes the shards as they are when it is called and gives them back as
  it leaves them, with what it returns (\<open>Inr\<close>) or raises (\<open>Inl\<close>). A method that
  returns \<open>None\<close> returns \<open>Inr None\<close>.
\<close>

subsection \<open>UserRepo\<close>

definition get_default_user :: "db \<Rightarrow> datetime \<Rightarrow> uuid \<Rightarrow> db \<times> (error + User)" where
  "get_default_user d now uuid4 =
     (case exec_first (\<lambda>u. first_name u = ''Default AI'' \<and> last_name u = ''service user 2'')
             (users d) of
        Some user \<Rightarrow> (d, Inr user)
      | None \<Rightarrow>
          (let user = \<lparr>updated_at = None, created_at = now, User.user_id = uuid4,
                        first_name = ''Default AI'', last_name = ''service user 2'',
                        phone = ''doesnt matter'', email = ''doesnt matter'',
                        password = ''doesnt matter''\<rparr>;
               (tbl, res) = commit_object User_pk (users d) user
           in (d\<lparr>users := tbl\<rparr>, res)))"

subsection \<open>OrganizationRepo\<close>

text \<open>The second half of \<open>get_default_organization\<close>, from the call of
  \<open>UserRepo().get_default_user()\<close> on: the membership is looked up by the user's
  identity alone.\<close>

definition default_organization_user ::
  "db \<Rightarrow> Organization \<Rightarrow> datetime \<Rightarrow> uuid \<Rightarrow> datetime \<Rightarrow> db \<times> (error + Organization)"
where
  "default_organization_user d organization now_user uuid4_user now_member =
     (case get_default_user d now_user uuid4_user of
        (d1, Inl e) \<Rightarrow> (d1, Inl e)
      | (d1, Inr user) \<Rightarrow>
          (case exec_first (\<lambda>ou. OrganizationUser.user_id ou = User.user_id user)
                  (organization_users d1) of
             Some organization_user \<Rightarrow> (d1, Inr organization)
           | None \<Rightarrow>
               (let organization_user =
                      \<lparr>updated_at = None, created_at = now_member,
                       organization_id = organization_id organization,
                       OrganizationUser.user_id = User.user_id user,
                       OrganizationUser.status = ''doesnt matter''\<rparr>;
                    (tbl, res) = commit_object OrganizationUser_pk (organization_users d1)
                                   organization_user
                in (case res of
                      Inl e \<Rightarrow> (d1\<lparr>organization_users := tbl\<rparr>, Inl e)
                    | Inr _ \<Rightarrow> (d1\<lparr>organization_users := tbl\<rparr>, Inr organization)))))"

definition get_default_organization ::
  "db \<Rightarrow> datetime \<Rightarrow> uuid \<Rightarrow> datetime \<Rightarrow> uuid \<Rightarrow> datetime \<Rightarrow> db \<times> (error + Organization)"
where
  "get_default_organization d now uuid4 now_user uuid4_user now_member =
     (case exec_first (\<lambda>organization. Organization.name organization = ''Default AI service org 2'')
             (organizations d) of
        Some organization \<Rightarrow>
          default_organization_user d organization now_user uuid4_user now_member
      | None \<Rightarrow>
          (let organization = \<lparr>updated_at = None, created_at = now, organization_id = uuid4,
                                Organization.name = ''Default AI service org 2'',
                                timezone = ''doesnt matter'',
                                Organization.status = ''doesnt matter''\<rparr>;
               (tbl, res) = commit_object Organization_pk (organizations d) organization
           in (case res of
                 Inl e \<Rightarrow> (d\<lparr>organizations := tbl\<rparr>, Inl e)
               | Inr organization' \<Rightarrow>
                   default_organization_user (d\<lparr>organizations := tbl\<rparr>) organization'
                     now_user uuid4_user now_member)))"

subsection \<open>CollectionRepo\<close>

definition create_collection_resource ::
  "db \<Rightarrow> datetime \<Rightarrow> uuid \<Rightarrow> uuid \<Rightarrow> uuid \<Rightarrow> db \<times> (error + CollectionResource)"
where
  "create_collection_resource d now cid oid rid =
     (let collection_resource =
            \<lparr>updated_at = None, created_at = now, organization_id = oid,
             CollectionResource.collection_id = cid,
             CollectionResource.resource_id = rid\<rparr>;
          (tbl, res) = commit_object CollectionResource_pk (collection_resources d)
                         collection_resource
      in (d\<lparr>collection_resources := tbl\<rparr>, res))"

definition get_collection_resources ::
  "db \<Rightarrow> uuid \<Rightarrow> db \<times> (error + CollectionResource list)"
where
  "get_collection_resources d cid =
     (d, Inr (exec_all (\<lambda>cr. CollectionResource.collection_id cr = cid)
                (collection_resources d)))"

subsection \<open>ResourceRepo\<close>

definition get_resource :: "db \<Rightarrow> uuid \<Rightarrow> db \<times> (error + Resource option)" where
  "get_resource d rid =
     (d, Inr (exec_first (\<lambda>r. Resource.resource_id r = rid) (resources d)))"

definition create_resource ::
  "db \<Rightarrow> datetime \<Rightarrow> uuid \<Rightarrow> uuid \<Rightarrow> ResourceType \<Rightarrow> uuid \<Rightarrow> db \<times> (error + Resource)"
where
  "create_resource d now uuid4 oid entity_type entity_id =
     (let resource =
            \<lparr>updated_at = None, created_at = now, organization_id = oid,
             Resource.resource_id = uuid4,
             source_entity_type = entity_type,
             source_entity_id = entity_id,
             Resource.status = pending, Resource.name = [], ai_summary = Some []\<rparr>;
          (tbl, res) = commit_object Resource_pk (resources d) resource
      in (d\<lparr>resources := tbl\<rparr>, res))"

text \<open>The row is loaded, its status assigned, and the row written back; when no row is
  found the assignment is to \<open>None\<close>, which raises before anything is written.\<close>

definition update_resource_status ::
  "db \<Rightarrow> uuid \<Rightarrow> ResourceStatus \<Rightarrow> db \<times> (error + Resource)"
where
  "update_resource_status d rid st =
     (case exec_first (\<lambda>r. Resource.resource_id r = rid) (resources d) of
        None \<Rightarrow> (d, Inl AttributeError)
      | Some resource \<Rightarrow>
          (let resource' = resource\<lparr>Resource.status := st\<rparr>
           in (d\<lparr>resources := session_update Resource_pk (resources d) resource'\<rparr>,
               Inr resource')))"

text \<open>\<open>collection_resources[0]\<close> raises \<open>IndexError\<close> on the empty list.\<close>

definition get_resources_by_collection_id ::
  "db \<Rightarrow> uuid \<Rightarrow> db \<times> (error + Resource list)"
where
  "get_resources_by_collection_id d cid =
     (case get_collection_resources d cid of
        (d1, Inl e) \<Rightarrow> (d1, Inl e)
      | (d1, Inr crs) \<Rightarrow>
          (case crs of
             [] \<Rightarrow> (d1, Inl IndexError)
           | cr # _ \<Rightarrow>
               (d1, Inr (exec_all (\<lambda>r. Resource.resource_id r = CollectionResource.resource_id cr)
                           (resources d1)))))"

subsection \<open>FileRepo\<close>

definition get_file :: "db \<Rightarrow> uuid \<Rightarrow> db \<times> (error + File option)" where
  "get_file d fid = (d, Inr (exec_first (\<lambda>f. File.file_id f = fid) (files d)))"

definition create_file_for_resource ::
  "db \<Rightarrow> datetime \<Rightarrow> Organization \<Rightarrow> Resource \<Rightarrow> string \<Rightarrow> string \<Rightarrow> User \<Rightarrow> db \<times> (error + File)"
where
  "create_file_for_resource d now organization resource file_name mime user =
     (let new_file =
            \<lparr>updated_at = None, created_at = now,
             organization_id = organization_id organization,
             file_id = source_entity_id resource,
             File.resource_id = Resource.resource_id resource,
             File.name = file_name,
             path = ''files/'' @ str_uuid (source_entity_id resource),
             mime_type = mime,
             File.user_id = User.user_id user,
             deleted = None\<rparr>;
          (tbl, res) = commit_object File_pk (files d) new_file
      in (d\<lparr>files := tbl\<rparr>, res))"

subsection \<open>MeetingRepo\<close>

text \<open>A meeting reads the clock twice: for \<open>created_at\<close>, then for
  \<open>status_updated_at\<close>.\<close>

definition create_meeting ::
  "db \<Rightarrow> datetime \<Rightarrow> datetime \<Rightarrow> Organization \<Rightarrow> Resource \<Rightarrow> User \<Rightarrow> db \<times> (error + Meeting)"
where
  "create_meeting d now now_status organization resource user =
     (let new_meeting =
            \<lparr>updated_at = None, created_at = now,
             organization_id = organization_id organization,
             meeting_id = source_entity_id resource,
             Meeting.resource_id = Resource.resource_id resource,
             provider_meeting_id = None,
             provider_meeting_password = None,
             provider_meeting_url = None,
             provider = ''doesnt matter'',
             Meeting.status = ''pending'',
             status_updated_at = now_status,
             transcriptions = None,
             Meeting.user_id = User.user_id user\<rparr>;
          (tbl, res) = commit_object Meeting_pk (meetings d) new_meeting
      in (d\<lparr>meetings := tbl\<rparr>, res))"

definition get_meeting :: "db \<Rightarrow> uuid \<Rightarrow> db \<times> (error + Meeting option)" where
  "get_meeting d mid = (d, Inr (exec_first (\<lambda>m. Meeting.meeting_id m = mid) (meetings d)))"

subsection \<open>WebsiteRepo\<close>

definition get_website :: "db \<Rightarrow> uuid \<Rightarrow> db \<times> (error + Website option)" where
  "get_website d wid = (d, Inr (exec_first (\<lambda>w. Website.website_id w = wid) (websites d)))"

definition create_website ::
  "db \<Rightarrow> datetime \<Rightarrow> uuid \<Rightarrow> Organization \<Rightarrow> Resource \<Rightarrow> User \<Rightarrow> string \<Rightarrow> db \<times> (error + Website)"
where
  "create_website d now uuid4 organization resource user address =
     (let new_website =
            \<lparr>updated_at = None, created_at = now,
             organization_id = organization_id organization,
             website_id = source_entity_id resource,
             Website.resource_id = Resource.resource_id resource,
             Website.name = ''Website '' @ str_uuid uuid4,
             url = address,
             parsed_urls = None,
             Website.user_id = Some (User.user_id user)\<rparr>;
          (tbl, res) = commit_object Website_pk (websites d) new_website
      in (d\<lparr>websites := tbl\<rparr>, res))"

subsection \<open>ChatRepo\<close>

definition get_chat :: "db \<Rightarrow> uuid \<Rightarrow> uuid \<Rightarrow> db \<times> (error + Chat option)" where
  "get_chat d cid oid =
     (d, Inr (exec_first (\<lambda>c. Chat.chat_id c = cid \<and> organization_id c = oid) (chats d)))"

definition create_chat ::
  "db \<Rightarrow> datetime \<Rightarrow> uuid \<Rightarrow> uuid \<Rightarrow> uuid \<Rightarrow> string \<Rightarrow> string \<Rightarrow> db \<times> (error + Chat)"
where
  "create_chat d now uuid4 oid uid chat_type chat_name =
     (let chat =
            \<lparr>updated_at = None, created_at = now, organization_id = oid,
             Chat.chat_id = uuid4,
             owner_user_id = uid,
             Chat.type = chat_type,
             summary = None,
             Chat.name = chat_name\<rparr>;
          (tbl, res) = commit_object Chat_pk (chats d) chat
      in (d\<lparr>chats := tbl\<rparr>, res))"

text \<open>\<open>message_id or uuid.uuid4()\<close>: an identity is never falsy, so a given
  \<open>message_id\<close> is kept. \<open>arguments if arguments else {}\<close>: \<open>None\<close> and the empty
  mapping both give the empty mapping.\<close>

definition create_chat_message ::
  "db \<Rightarrow> datetime \<Rightarrow> uuid \<Rightarrow> uuid \<Rightarrow> uuid \<Rightarrow> string \<Rightarrow> string \<Rightarrow> uuid option \<Rightarrow> uuid option
     \<Rightarrow> (string \<times> json) list option \<Rightarrow> db \<times> (error + ChatMessage)"
where
  "create_chat_message d now uuid4 oid cid msg_type msg_content mid owner args =
     (let chat_message =
            \<lparr>updated_at = None, created_at = now, organization_id = oid,
             ChatMessage.chat_id = cid,
             message_id = (case mid of Some m \<Rightarrow> m | None \<Rightarrow> uuid4),
             ChatMessage.user_id = owner,
             ChatMessage.type = msg_type,
             content = msg_content,
             arguments = (case args of Some a \<Rightarrow> (if a = [] then [] else a) | None \<Rightarrow> []),
             is_summarized = False\<rparr>;
          (tbl, res) = commit_object ChatMessage_pk (chat_messages d) chat_message
      in (d\<lparr>chat_messages := tbl\<rparr>, res))"

text \<open>\<open>order_by(key.desc())\<close>: the rows by descending key, rows of equal key in the order
  the engine scans them. \<open>get_chat_messages\<close> takes the first 40 of them and reverses
  that list.\<close>

definition order_by_desc :: "('r \<Rightarrow> datetime) \<Rightarrow> 'r list \<Rightarrow> 'r list" where
  "order_by_desc key tbl = sort_key (\<lambda>r. - key r) tbl"

definition get_chat_messages :: "db \<Rightarrow> uuid \<Rightarrow> db \<times> (error + ChatMessage list)" where
  "get_chat_messages d cid =
     (let newest =
            take 40 (order_by_desc created_at
                       (exec_all (\<lambda>m. ChatMessage.chat_id m = cid) (chat_messages d)))
      in (d, Inr (rev newest)))"

section \<open>A caller appending messages\<close>

text \<open>
  The scenario of the message-log property: a caller makes one \<open>create_chat_message\<close>
  call after another, each with its own arguments and its own readings of the clock and
  of \<open>uuid4\<close>, and stops at the first call that raises. The result collects the
  messages the calls returned, in the order of the calls.
\<close>

record message_call =
  call_now :: datetime
  call_uuid4 :: uuid
  call_organization_id :: uuid
  call_chat_id :: uuid
  call_type :: string
  call_content :: string
  call_message_id :: "uuid option"
  call_owner_user_id :: "uuid option"
  call_arguments :: "(string \<times> json) list option"

fun create_chat_messages :: "db \<Rightarrow> message_call list \<Rightarrow> db \<times> (error + ChatMessage list)" where
  "create_chat_messages d [] = (d, Inr [])"
| "create_chat_messages d (c # cs) =
     (case create_chat_message d (call_now c) (call_uuid4 c) (call_organization_id c)
             (call_chat_id c) (call_type c) (call_content c) (call_message_id c)
             (call_owner_user_id c) (call_arguments c) of
        (d1, Inl e) \<Rightarrow> (d1, Inl e)
      | (d1, Inr m) \<Rightarrow>
          (case create_chat_messages d1 cs of
             (d2, Inl e) \<Rightarrow> (d2, Inl e)
           | (d2, Inr ms) \<Rightarrow> (d2, Inr (m # ms))))"

section \<open>Example states\<close>

definition empty_db :: db where
  "empty_db =
     \<lparr>users = [], organizations = [], organization_users = [], collection_resources = [],
      resources = [], files = [], meetings = [], websites = [], chats = [],
      chat_messages = []\<rparr>"

definition example_user :: User where
  "example_user =
     \<lparr>updated_at = None, created_at = 100, User.user_id = 1,
      first_name = ''Default AI'', last_name = ''service user 2'',
      phone = ''doesnt matter'', email = ''doesnt matter'', password = ''doesnt matter''\<rparr>"

definition example_organization :: Organization where
  "example_organization =
     \<lparr>updated_at = None, created_at = 101, organization_id = 2,
      Organization.name = ''Default AI service org 2'', timezone = ''doesnt matter'',
      Organization.status = ''doesnt matter''\<rparr>"

definition example_resource :: "uuid \<Rightarrow> uuid \<Rightarrow> Resource" where
  "example_resource rid entity_id =
     \<lparr>updated_at = None, created_at = 102, organization_id = 2,
      Resource.resource_id = rid, source_entity_type = ResourceType.file,
      source_entity_id = entity_id, Resource.status = pending, Resource.name = [],
      ai_summary = Some []\<rparr>"

definition example_collection_resource :: "uuid \<Rightarrow> uuid \<Rightarrow> CollectionResource" where
  "example_collection_resource cid rid =
     \<lparr>updated_at = None, created_at = 103, organization_id = 2,
      CollectionResource.collection_id = cid, CollectionResource.resource_id = rid\<rparr>"

definition example_file :: File where
  "example_file =
     \<lparr>updated_at = None, created_at = 105, organization_id = 2,
      file_id = 30, File.resource_id = 20, File.name = ''notes.txt'',
      path = ''files/'' @ str_uuid 30, mime_type = ''text/plain'', File.user_id = 1,
      deleted = None\<rparr>"

definition example_meeting :: Meeting where
  "example_meeting =
     \<lparr>updated_at = None, created_at = 106, organization_id = 2,
      meeting_id = 32, Meeting.resource_id = 22,
      provider_meeting_id = None, provider_meeting_password = None,
      provider_meeting_url = None, provider = ''doesnt matter'', Meeting.status = ''pending'',
      status_updated_at = 106, transcriptions = None, Meeting.user_id = 1\<rparr>"

definition example_website :: Website where
  "example_website =
     \<lparr>updated_at = None, created_at = 107, organization_id = 2,
      website_id = 33, Website.resource_id = 23, Website.name = ''Website '' @ str_uuid 50,
      url = ''https://example.com'', parsed_urls = None, Website.user_id = Some 1\<rparr>"

definition example_chat :: Chat where
  "example_chat =
     \<lparr>updated_at = None, created_at = 108, organization_id = 2,
      Chat.chat_id = 4, owner_user_id = 1, Chat.type = ''assistant'', summary = None,
      Chat.name = ''first chat''\<rparr>"

text \<open>Collection 10 holds the resources 20 and 21; collection 11 holds nothing.\<close>

definition example_db :: db where
  "example_db =
     empty_db
       \<lparr>users := [example_user],
        organizations := [example_organization],
        collection_resources :=
          [example_collection_resource 10 20, example_collection_resource 10 21],
        resources := [example_resource 20 30, example_resource 21 31],
        files := [example_file],
        meetings := [example_meeting],
        websites := [example_website],
        chats := [example_chat]\<rparr>"

text \<open>The membership of user 1 in an organization.\<close>

definition example_member :: "uuid \<Rightarrow> OrganizationUser" where
  "example_member oid =
     \<lparr>updated_at = None, created_at = 104, organization_id = oid,
      OrganizationUser.user_id = 1, OrganizationUser.status = ''doesnt matter''\<rparr>"

text \<open>The state a first call of \<open>get_default_organization\<close> makes of the empty state:
  the default user, the default organization and the membership that links them.\<close>

definition default_db :: db where
  "default_db =
     empty_db
       \<lparr>users := [example_user],
        organizations := [example_organization],
        organization_users := [example_member 2]\<rparr>"

text \<open>The default user and the default organization exist, and the default user is a
  member of organization 3 only.\<close>

definition foreign_member_db :: db where
  "foreign_member_db =
     empty_db
       \<lparr>users := [example_user],
        organizations := [example_organization],
        organization_users := [example_member 3]\<rparr>"

text \<open>41 calls for chat 4, the \<open>i\<close>-th at time \<open>i\<close>.\<close>

definition example_call :: "nat \<Rightarrow> message_call" where
  "example_call i =
     \<lparr>call_now = int i, call_uuid4 = of_nat i, call_organization_id = 2, call_chat_id = 4,
      call_type = ''user'', call_content = ''hello'', call_message_id = None,
      call_owner_user_id = None, call_arguments = None\<rparr>"

definition example_calls :: "message_call list" where
  "example_calls = map example_call [0..<41]"

text \<open>The messages these calls return, and the state they make of the empty state.\<close>

definition example_message :: "nat \<Rightarrow> ChatMessage" where
  "example_message i =
     \<lparr>updated_at = None, created_at = int i, organization_id = 2,
      ChatMessage.chat_id = 4, message_id = of_nat i, ChatMessage.user_id = None,
      ChatMessage.type = ''user'', content = ''hello'', arguments = [],
      is_summarized = False\<rparr>"

definition example_messages :: "ChatMessage list" where
  "example_messages = map example_message [0..<41]"

definition example_log_db :: db where
  "example_log_db = empty_db\<lparr>chat_messages := example_messages\<rparr>"

section \<open>Facts about the session\<close>

lemma exec_first_None: "(exec_first P tbl = None) = (\<forall>r\<in>set tbl. \<not> P r)"
  by (auto simp: exec_first_def find_None_iff)

lemma exec_first_Some: "exec_first P tbl = Some r \<Longrightarrow> r \<in> set tbl \<and> P r"
  by (auto simp: exec_first_def find_Some_iff)

lemma find_snoc_fresh: "\<forall>r\<in>set tbl. \<not> P r \<Longrightarrow> P obj \<Longrightarrow> find P (tbl @ [obj]) = Some obj"
  by (induction tbl) auto

text \<open>The two outcomes of \<open>_commit_object\<close>: the refresh always finds the row that was
  just inserted, so \<open>InvalidRequestError\<close> is never raised.\<close>

lemma commit_object_eq:
  "commit_object pk tbl obj =
     (if pk obj \<in> pk ` set tbl then (tbl, Inl IntegrityError) else (tbl @ [obj], Inr obj))"
proof (cases "pk obj \<in> pk ` set tbl")
  case True
  then show ?thesis by (simp add: commit_object_def session_insert_def)
next
  case False
  then have "\<forall>r\<in>set tbl. \<not> pk r = pk obj" by (metis imageI)
  then have "find (\<lambda>r. pk r = pk obj) (tbl @ [obj]) = Some obj"
    by (rule find_snoc_fresh) simp
  with False show ?thesis
    by (simp add: commit_object_def session_insert_def session_refresh_def)
qed

text \<open>An update of the first row a query finds keeps it the first row the query finds,
  when the query's condition follows from the primary key.\<close>

lemma find_session_update:
  assumes "find P tbl = Some r" and "P r'" and "pk r' = pk r"
      and "\<And>x. pk x = pk r \<Longrightarrow> P x"
  shows "find P (session_update pk tbl r') = Some r'"
  using assms unfolding session_update_def
proof (induction tbl)
  case Nil
  then show ?case by simp
next
  case (Cons x xs)
  show ?case
  proof (cases "P x")
    case True
    with Cons.prems have "x = r" by simp
    with Cons.prems show ?thesis by simp
  next
    case False
    with Cons.prems(4) have "pk x \<noteq> pk r" by blast
    with False Cons show ?thesis by simp
  qed
qed

section \<open>The commit primitive\<close>







section \<open>The resource lifecycle\<close>

text \<open>
  C3, as the code has it. When no row of the resources table has the given
  \<open>resource_id\<close>, \<open>update_resource_status\<close> raises \<open>AttributeError\<close> (the assignment
  \<open>resource.status = status\<close> on \<open>None\<close>), and every table is as it was before the
  call.
\<close>

theorem update_resource_status_missing:
  "\<forall>r\<in>set (resources d). Resource.resource_id r \<noteq> rid \<Longrightarrow>
   update_resource_status d rid st = (d, Inl AttributeError)"
  by (simp add: update_resource_status_def exec_first_None[THEN iffD2])

theorem update_resource_status_missing_witness:
  "update_resource_status example_db 99 available = (example_db, Inl AttributeError)"
  using update_resource_status_missing [of example_db 99 available]
  by (simp add: example_db_def example_resource_def)

text \<open>C3 as the specification states it fails: on the example state, where no resource
  99 exists, the call does not raise \<open>NotFoundError\<close>.\<close>

theorem update_resource_status_not_NotFoundError:
  "snd (update_resource_status example_db 99 available) = Inl AttributeError \<and>
   snd (update_resource_status example_db 99 available) \<noteq> Inl NotFoundError"
  by (simp add: update_resource_status_def exec_first_def example_db_def example_resource_def)

text \<open>
  C6. A resource that \<open>create_resource\<close> returns has the status \<open>pending\<close>. For a
  \<open>resource_id\<close> that some row of the resources table has,
  \<open>update_resource_status\<close> with \<open>available\<close> returns, and \<open>get_resource\<close> on the
  state it leaves returns a resource whose status is \<open>available\<close>.
\<close>

theorem resource_status_transition:
  "(create_resource d now new_id oid entity_type entity_id = (d', Inr r) \<longrightarrow>
      Resource.status r = pending) \<and>
   ((\<exists>r\<in>set (resources d). Resource.resource_id r = rid) \<longrightarrow>
      (\<exists>d1 r1 r2. update_resource_status d rid available = (d1, Inr r1) \<and>
         get_resource d1 rid = (d1, Inr (Some r2)) \<and> Resource.status r2 = available))"
proof (intro conjI impI)
  assume "create_resource d now new_id oid entity_type entity_id = (d', Inr r)"
  then show "Resource.status r = pending"
    by (auto simp: create_resource_def Let_def commit_object_eq split: if_splits)
next
  let ?P = "\<lambda>r. Resource.resource_id r = rid"
  assume "\<exists>r\<in>set (resources d). Resource.resource_id r = rid"
  then obtain r0 where r0: "find ?P (resources d) = Some r0"
    by (cases "find ?P (resources d)") (auto simp: find_None_iff)
  then have rid: "Resource.resource_id r0 = rid" by (auto simp: find_Some_iff)
  let ?r1 = "r0\<lparr>Resource.status := available\<rparr>"
  let ?d1 = "d\<lparr>resources := session_update Resource_pk (resources d) ?r1\<rparr>"
  have upd: "update_resource_status d rid available = (?d1, Inr ?r1)"
    using r0 by (simp add: update_resource_status_def exec_first_def Let_def)
  have "find ?P (session_update Resource_pk (resources d) ?r1) = Some ?r1"
    using r0
  proof (rule find_session_update)
    show "Resource.resource_id ?r1 = rid" using rid by simp
    show "Resource_pk ?r1 = Resource_pk r0" by (simp add: Resource_pk_def)
    show "\<And>x. Resource_pk x = Resource_pk r0 \<Longrightarrow> Resource.resource_id x = rid"
      using rid by (simp add: Resource_pk_def)
  qed
  then have "get_resource ?d1 rid = (?d1, Inr (Some ?r1))"
    by (simp add: get_resource_def exec_first_def)
  with upd show "\<exists>d1 r1 r2. update_resource_status d rid available = (d1, Inr r1) \<and>
         get_resource d1 rid = (d1, Inr (Some r2)) \<and> Resource.status r2 = available"
    by auto
qed

text \<open>Creating resource 7 on the empty state, and making resource 21 of the example
  state available.\<close>

theorem resource_status_transition_witness:
  "create_resource empty_db 102 7 2 ResourceType.file 30 =
     (empty_db\<lparr>resources := [example_resource 7 30]\<rparr>, Inr (example_resource 7 30)) \<and>
   Resource.status (example_resource 7 30) = pending \<and>
   (\<exists>d1 r1 r2. update_resource_status example_db 21 available = (d1, Inr r1) \<and>
         get_resource d1 21 = (d1, Inr (Some r2)) \<and> Resource.status r2 = available)"
proof -
  have c: "create_resource empty_db 102 7 2 ResourceType.file 30 =
             (empty_db\<lparr>resources := [example_resource 7 30]\<rparr>, Inr (example_resource 7 30))"
    by (simp add: Let_def create_resource_def commit_object_def session_insert_def session_refresh_def
          example_resource_def empty_db_def Resource_pk_def)
  have e: "\<exists>r\<in>set (resources example_db). Resource.resource_id r = 21"
    by (simp add: example_db_def example_resource_def)
  from c e
       resource_status_transition
         [of empty_db 102 7 2 ResourceType.file 30
             "empty_db\<lparr>resources := [example_resource 7 30]\<rparr>" "example_resource 7 30"]
       resource_status_transition [where d = example_db and rid = 21]
  show ?thesis by blast
qed

section \<open>Resources of a collection\<close>

text \<open>
  C9. When the collection has no association row, \<open>get_resources_by_collection_id\<close>
  does not return the empty sequence: \<open>collection_resources[0]\<close> raises
  \<open>IndexError\<close>. When the collection has an association row, the call returns. So the
  call returns exactly under the precondition that the collection has at least one
  association row.
\<close>

theorem get_resources_by_collection_id_empty:
  "((\<forall>cr\<in>set (collection_resources d). CollectionResource.collection_id cr \<noteq> cid) \<longrightarrow>
     get_resources_by_collection_id d cid = (d, Inl IndexError)) \<and>
   ((\<exists>cr\<in>set (collection_resources d). CollectionResource.collection_id cr = cid) \<longrightarrow>
     (\<exists>rs. get_resources_by_collection_id d cid = (d, Inr rs)))"
proof (intro conjI impI)
  assume "\<forall>cr\<in>set (collection_resources d). CollectionResource.collection_id cr \<noteq> cid"
  then have "filter (\<lambda>cr. CollectionResource.collection_id cr = cid) (collection_resources d) = []"
    by (simp add: filter_empty_conv)
  then show "get_resources_by_collection_id d cid = (d, Inl IndexError)"
    by (simp add: get_resources_by_collection_id_def get_collection_resources_def exec_all_def)
next
  assume "\<exists>cr\<in>set (collection_resources d). CollectionResource.collection_id cr = cid"
  then have "filter (\<lambda>cr. CollectionResource.collection_id cr = cid) (collection_resources d) \<noteq> []"
    by (simp add: filter_empty_conv)
  then obtain cr crs where
    "filter (\<lambda>cr. CollectionResource.collection_id cr = cid) (collection_resources d) = cr # crs"
    by (cases "filter (\<lambda>cr. CollectionResource.collection_id cr = cid) (collection_resources d)")
       auto
  then show "\<exists>rs. get_resources_by_collection_id d cid = (d, Inr rs)"
    by (simp add: get_resources_by_collection_id_def get_collection_resources_def exec_all_def)
qed

theorem get_resources_by_collection_id_empty_witness:
  "get_resources_by_collection_id example_db 11 = (example_db, Inl IndexError) \<and>
   (\<exists>rs. get_resources_by_collection_id example_db 10 = (example_db, Inr rs))"
  using get_resources_by_collection_id_empty [of example_db 11]
        get_resources_by_collection_id_empty [of example_db 10]
  by (simp add: example_db_def example_collection_resource_def)

text \<open>
  C7. When \<open>get_collection_resources\<close> fetches the association rows \<open>cr # crs\<close>,
  \<open>get_resources_by_collection_id\<close> returns the resources whose \<open>resource_id\<close> is that
  of the first row \<open>cr\<close>, and only those: every returned resource has that
  \<open>resource_id\<close>, and a resource that another association row refers to under a
  different \<open>resource_id\<close> is not returned.
\<close>

theorem get_resources_by_collection_id_first_only:
  assumes "get_collection_resources d cid = (d, Inr (cr # crs))"
  shows "\<exists>rs. get_resources_by_collection_id d cid = (d, Inr rs) \<and>
           rs = filter (\<lambda>r. Resource.resource_id r = CollectionResource.resource_id cr)
                  (resources d) \<and>
           (\<forall>r\<in>set rs. Resource.resource_id r = CollectionResource.resource_id cr) \<and>
           (\<forall>cr'\<in>set crs.
              CollectionResource.resource_id cr' \<noteq> CollectionResource.resource_id cr \<longrightarrow>
              (\<forall>r\<in>set rs. Resource.resource_id r \<noteq> CollectionResource.resource_id cr'))"
  using assms by (auto simp: get_resources_by_collection_id_def exec_all_def)

text \<open>Collection 10 of the example state holds resources 20 and 21, both stored; the
  call returns resource 20 alone.\<close>

theorem get_resources_by_collection_id_first_only_witness:
  "get_collection_resources example_db 10 =
     (example_db, Inr [example_collection_resource 10 20, example_collection_resource 10 21]) \<and>
   get_resources_by_collection_id example_db 10 = (example_db, Inr [example_resource 20 30]) \<and>
   example_resource 21 31 \<in> set (resources example_db)"
proof -
  have a: "get_collection_resources example_db 10 =
     (example_db, Inr [example_collection_resource 10 20, example_collection_resource 10 21])"
    by (simp add: get_collection_resources_def exec_all_def example_db_def
          example_collection_resource_def)
  from get_resources_by_collection_id_first_only [OF a]
  have "get_resources_by_collection_id example_db 10 =
     (example_db, Inr (filter (\<lambda>r. Resource.resource_id r =
         CollectionResource.resource_id (example_collection_resource 10 20))
           (resources example_db)))"
    by blast
  then have
    "get_resources_by_collection_id example_db 10 = (example_db, Inr [example_resource 20 30])"
    by (simp add: example_db_def example_collection_resource_def example_resource_def)
  with a show ?thesis by (simp add: example_db_def)
qed

section \<open>Lookups of a single entity\<close>

text \<open>
  C10. When no row matches, \<open>get_resource\<close>, \<open>get_file\<close>, \<open>get_meeting\<close>,
  \<open>get_website\<close> and \<open>get_chat\<close> return \<open>None\<close>, raise nothing, and leave every table
  as it was.
\<close>

theorem lookups_return_None:
  "((\<forall>r\<in>set (resources d). Resource.resource_id r \<noteq> rid) \<longrightarrow>
      get_resource d rid = (d, Inr None)) \<and>
   ((\<forall>f\<in>set (files d). File.file_id f \<noteq> fid) \<longrightarrow>
      get_file d fid = (d, Inr None)) \<and>
   ((\<forall>m\<in>set (meetings d). Meeting.meeting_id m \<noteq> mid) \<longrightarrow>
      get_meeting d mid = (d, Inr None)) \<and>
   ((\<forall>w\<in>set (websites d). Website.website_id w \<noteq> wid) \<longrightarrow>
      get_website d wid = (d, Inr None)) \<and>
   ((\<forall>c\<in>set (chats d). \<not> (Chat.chat_id c = cid \<and> organization_id c = oid)) \<longrightarrow>
      get_chat d cid oid = (d, Inr None))"
  by (simp add: get_resource_def get_file_def get_meeting_def get_website_def get_chat_def
        exec_first_None)

text \<open>In the example state no entity has the identity 99, and chat 4 belongs to
  organization 2, not to organization 3.\<close>

theorem lookups_return_None_witness:
  "get_resource example_db 99 = (example_db, Inr None) \<and>
   get_file example_db 99 = (example_db, Inr None) \<and>
   get_meeting example_db 99 = (example_db, Inr None) \<and>
   get_website example_db 99 = (example_db, Inr None) \<and>
   get_chat example_db 4 3 = (example_db, Inr None)"
  using lookups_return_None [of example_db 99 99 99 99 4 3]
  by (simp add: example_db_def example_resource_def example_file_def example_meeting_def
        example_website_def example_chat_def)

section \<open>The concrete entity of a resource\<close>

text \<open>An entity loaded from a row holds the text of the row's identity; that is equal to
  what the caller holds for the same identity when, and only when, the caller holds
  text.\<close>

lemma loaded_value_held_as:
  assumes "held_as a v"
  shows "process_bind_param (loaded_value v) = process_bind_param (Some a)"
    and "(loaded_value v = Some a) = (\<exists>s. a = Str s)"
  using assms
  by (cases a; simp add: held_as_def loaded_value_def process_bind_param_def
        process_result_value_def)+

text \<open>The rows that the three methods write carry the identities of the resource.\<close>

lemma created_entity_fields:
  "create_file_for_resource d now organization r file_name mime user = (d', Inr f) \<Longrightarrow>
     File.file_id f = source_entity_id r \<and> File.resource_id f = Resource.resource_id r"
  "create_meeting d now now_status organization r user = (d', Inr m) \<Longrightarrow>
     Meeting.meeting_id m = source_entity_id r \<and> Meeting.resource_id m = Resource.resource_id r"
  "create_website d now new_id organization r user address = (d', Inr w) \<Longrightarrow>
     Website.website_id w = source_entity_id r \<and> Website.resource_id w = Resource.resource_id r"
  by (auto simp: create_file_for_resource_def create_meeting_def create_website_def Let_def
        commit_object_eq split: if_splits)

text \<open>
  C5, as the code has it. Let \<open>r\<close> be a resource whose \<open>source_entity_id\<close> and
  \<open>resource_id\<close> the caller holds as \<open>a\<close> and \<open>b\<close> (each a \<open>uuid.UUID\<close> object or the
  canonical text). A file that \<open>create_file_for_resource\<close> returns for \<open>r\<close> is the row
  written with \<open>file_id\<close> the identity of \<open>r.source_entity_id\<close> and \<open>resource_id\<close> the
  identity of \<open>r.resource_id\<close>; what the returned file holds in these attributes is their
  text, so \<open>str(f.file_id) == str(r.source_entity_id)\<close> and
  \<open>str(f.resource_id) == str(r.resource_id)\<close>, while \<open>f.file_id == r.source_entity_id\<close>
  holds exactly when \<open>r\<close> holds \<open>source_entity_id\<close> as text, and
  \<open>f.resource_id == r.resource_id\<close> exactly when \<open>r\<close> holds \<open>resource_id\<close> as text (as a
  resource does that \<open>create_resource\<close> returned or a query loaded). The same holds for
  the meeting that \<open>create_meeting\<close> returns, with \<open>meeting_id\<close>, and for the website that
  \<open>create_website\<close> returns, with \<open>website_id\<close>.
\<close>

theorem concrete_entity_binding:
  assumes "held_as a (source_entity_id r)" and "held_as b (Resource.resource_id r)"
  shows
  "(create_file_for_resource d now organization r file_name mime user = (d', Inr f) \<longrightarrow>
      File.file_id f = source_entity_id r \<and> File.resource_id f = Resource.resource_id r \<and>
      process_bind_param (loaded_value (File.file_id f)) = process_bind_param (Some a) \<and>
      process_bind_param (loaded_value (File.resource_id f)) = process_bind_param (Some b) \<and>
      (loaded_value (File.file_id f) = Some a) = (\<exists>s. a = Str s) \<and>
      (loaded_value (File.resource_id f) = Some b) = (\<exists>s. b = Str s)) \<and>
   (create_meeting d now now_status organization r user = (d', Inr m) \<longrightarrow>
      Meeting.meeting_id m = source_entity_id r \<and> Meeting.resource_id m = Resource.resource_id r \<and>
      process_bind_param (loaded_value (Meeting.meeting_id m)) = process_bind_param (Some a) \<and>
      process_bind_param (loaded_value (Meeting.resource_id m)) = process_bind_param (Some b) \<and>
      (loaded_value (Meeting.meeting_id m) = Some a) = (\<exists>s. a = Str s) \<and>
      (loaded_value (Meeting.resource_id m) = Some b) = (\<exists>s. b = Str s)) \<and>
   (create_website d now new_id organization r user address = (d', Inr w) \<longrightarrow>
      Website.website_id w = source_entity_id r \<and> Website.resource_id w = Resource.resource_id r \<and>
      process_bind_param (loaded_value (Website.website_id w)) = process_bind_param (Some a) \<and>
      process_bind_param (loaded_value (Website.resource_id w)) = process_bind_param (Some b) \<and>
      (loaded_value (Website.website_id w) = Some a) = (\<exists>s. a = Str s) \<and>
      (loaded_value (Website.resource_id w) = Some b) = (\<exists>s. b = Str s))"
proof (intro conjI impI)
  assume c: "create_file_for_resource d now organization r file_name mime user = (d', Inr f)"
  note v = created_entity_fields(1) [OF c]
  from v show "File.file_id f = source_entity_id r" "File.resource_id f = Resource.resource_id r"
    by simp_all
  from v loaded_value_held_as [OF assms(1)] loaded_value_held_as [OF assms(2)]
  show "process_bind_param (loaded_value (File.file_id f)) = process_bind_param (Some a)"
    "process_bind_param (loaded_value (File.resource_id f)) = process_bind_param (Some b)"
    "(loaded_value (File.file_id f) = Some a) = (\<exists>s. a = Str s)"
    "(loaded_value (File.resource_id f) = Some b) = (\<exists>s. b = Str s)"
    by simp_all
next
  assume c: "create_meeting d now now_status organization r user = (d', Inr m)"
  note v = created_entity_fields(2) [OF c]
  from v show "Meeting.meeting_id m = source_entity_id r"
    "Meeting.resource_id m = Resource.resource_id r"
    by simp_all
  from v loaded_value_held_as [OF assms(1)] loaded_value_held_as [OF assms(2)]
  show "process_bind_param (loaded_value (Meeting.meeting_id m)) = process_bind_param (Some a)"
    "process_bind_param (loaded_value (Meeting.resource_id m)) = process_bind_param (Some b)"
    "(loaded_value (Meeting.meeting_id m) = Some a) = (\<exists>s. a = Str s)"
    "(loaded_value (Meeting.resource_id m) = Some b) = (\<exists>s. b = Str s)"
    by simp_all
next
  assume c: "create_website d now new_id organization r user address = (d', Inr w)"
  note v = created_entity_fields(3) [OF c]
  from v show "Website.website_id w = source_entity_id r"
    "Website.resource_id w = Resource.resource_id r"
    by simp_all
  from v loaded_value_held_as [OF assms(1)] loaded_value_held_as [OF assms(2)]
  show "process_bind_param (loaded_value (Website.website_id w)) = process_bind_param (Some a)"
    "process_bind_param (loaded_value (Website.resource_id w)) = process_bind_param (Some b)"
    "(loaded_value (Website.website_id w) = Some a) = (\<exists>s. a = Str s)"
    "(loaded_value (Website.resource_id w) = Some b) = (\<exists>s. b = Str s)"
    by simp_all
qed

text \<open>The three calls on the empty state return the example file, meeting and
  website. The caller of the first holds \<open>source_entity_id\<close> as text and \<open>resource_id\<close> as
  a \<open>uuid.UUID\<close>; the callers of the others hold text.\<close>

lemma example_creations:
  "create_file_for_resource empty_db 105 example_organization (example_resource 20 30)
      ''notes.txt'' ''text/plain'' example_user
     = (empty_db\<lparr>files := [example_file]\<rparr>, Inr example_file)"
  "create_meeting empty_db 106 106 example_organization (example_resource 22 32) example_user
     = (empty_db\<lparr>meetings := [example_meeting]\<rparr>, Inr example_meeting)"
  "create_website empty_db 107 50 example_organization (example_resource 23 33) example_user
      ''https://example.com''
     = (empty_db\<lparr>websites := [example_website]\<rparr>, Inr example_website)"
  by (simp_all add: Let_def create_file_for_resource_def create_meeting_def create_website_def
        commit_object_def session_insert_def session_refresh_def example_resource_def
        example_organization_def example_user_def example_file_def example_meeting_def
        example_website_def empty_db_def File_pk_def Meeting_pk_def Website_pk_def)

theorem concrete_entity_binding_witness:
  "held_as (Str (str_uuid 30)) (source_entity_id (example_resource 20 30)) \<and>
   held_as (UUID 20) (Resource.resource_id (example_resource 20 30)) \<and>
   create_file_for_resource empty_db 105 example_organization (example_resource 20 30)
      ''notes.txt'' ''text/plain'' example_user
     = (empty_db\<lparr>files := [example_file]\<rparr>, Inr example_file) \<and>
   loaded_value (File.file_id example_file) = Some (Str (str_uuid 30)) \<and>
   loaded_value (File.resource_id example_file) \<noteq> Some (UUID 20) \<and>
   process_bind_param (loaded_value (File.resource_id example_file))
     = process_bind_param (Some (UUID 20)) \<and>
   held_as (Str (str_uuid 32)) (source_entity_id (example_resource 22 32)) \<and>
   held_as (Str (str_uuid 22)) (Resource.resource_id (example_resource 22 32)) \<and>
   create_meeting empty_db 106 106 example_organization (example_resource 22 32) example_user
     = (empty_db\<lparr>meetings := [example_meeting]\<rparr>, Inr example_meeting) \<and>
   loaded_value (Meeting.meeting_id example_meeting) = Some (Str (str_uuid 32)) \<and>
   loaded_value (Meeting.resource_id example_meeting) = Some (Str (str_uuid 22)) \<and>
   held_as (Str (str_uuid 33)) (source_entity_id (example_resource 23 33)) \<and>
   held_as (Str (str_uuid 23)) (Resource.resource_id (example_resource 23 33)) \<and>
   create_website empty_db 107 50 example_organization (example_resource 23 33) example_user
      ''https://example.com''
     = (empty_db\<lparr>websites := [example_website]\<rparr>, Inr example_website) \<and>
   loaded_value (Website.website_id example_website) = Some (Str (str_uuid 33)) \<and>
   loaded_value (Website.resource_id example_website) = Some (Str (str_uuid 23))"
proof -
  have h1: "held_as (Str (str_uuid 30)) (source_entity_id (example_resource 20 30))"
    and h2: "held_as (UUID 20) (Resource.resource_id (example_resource 20 30))"
    and h3: "held_as (Str (str_uuid 32)) (source_entity_id (example_resource 22 32))"
    and h4: "held_as (Str (str_uuid 22)) (Resource.resource_id (example_resource 22 32))"
    and h5: "held_as (Str (str_uuid 33)) (source_entity_id (example_resource 23 33))"
    and h6: "held_as (Str (str_uuid 23)) (Resource.resource_id (example_resource 23 33))"
    by (simp_all add: held_as_def process_bind_param_def example_resource_def)
  from example_creations(1)
       concrete_entity_binding
         [OF h1 h2, where d = empty_db and now = 105 and organization = example_organization
            and file_name = "''notes.txt''" and mime = "''text/plain''" and user = example_user
            and d' = "empty_db\<lparr>files := [example_file]\<rparr>" and f = example_file]
  have f: "loaded_value (File.file_id example_file) = Some (Str (str_uuid 30)) \<and>
           loaded_value (File.resource_id example_file) \<noteq> Some (UUID 20) \<and>
           process_bind_param (loaded_value (File.resource_id example_file))
             = process_bind_param (Some (UUID 20))"
    by blast
  from example_creations(2)
       concrete_entity_binding
         [OF h3 h4, where d = empty_db and now = 106 and now_status = 106
            and organization = example_organization and user = example_user
            and d' = "empty_db\<lparr>meetings := [example_meeting]\<rparr>" and m = example_meeting]
  have m: "loaded_value (Meeting.meeting_id example_meeting) = Some (Str (str_uuid 32)) \<and>
           loaded_value (Meeting.resource_id example_meeting) = Some (Str (str_uuid 22))"
    by blast
  from example_creations(3)
       concrete_entity_binding
         [OF h5 h6, where d = empty_db and now = 107 and new_id = 50
            and organization = example_organization and user = example_user
            and address = "''https://example.com''"
            and d' = "empty_db\<lparr>websites := [example_website]\<rparr>" and w = example_website]
  have w: "loaded_value (Website.website_id example_website) = Some (Str (str_uuid 33)) \<and>
           loaded_value (Website.resource_id example_website) = Some (Str (str_uuid 23))"
    by blast
  from h1 h2 h3 h4 h5 h6 example_creations f m w show ?thesis by blast
qed

text \<open>C5 as the specification states it fails: for a resource that holds its identities
  as \<open>uuid.UUID\<close> objects, the returned file's \<open>file_id\<close> is not equal to
  \<open>r.source_entity_id\<close> and its \<open>resource_id\<close> is not equal to \<open>r.resource_id\<close>.\<close>

theorem concrete_entity_binding_not_equal:
  "create_file_for_resource empty_db 105 example_organization (example_resource 20 30)
      ''notes.txt'' ''text/plain'' example_user
     = (empty_db\<lparr>files := [example_file]\<rparr>, Inr example_file) \<and>
   held_as (UUID 30) (source_entity_id (example_resource 20 30)) \<and>
   held_as (UUID 20) (Resource.resource_id (example_resource 20 30)) \<and>
   loaded_value (File.file_id example_file) \<noteq> Some (UUID 30) \<and>
   loaded_value (File.resource_id example_file) \<noteq> Some (UUID 20)"
  using example_creations(1)
  by (simp add: held_as_def process_bind_param_def process_result_value_def loaded_value_def
        example_resource_def)

section \<open>The default user and the default organization\<close>

text \<open>What a returning \<open>get_default_user\<close> leaves: the user it returns is the one the
  sentinel query finds, and the tables of the organizations shard are untouched.\<close>

lemma get_default_user_found:
  "exec_first (\<lambda>u. first_name u = ''Default AI'' \<and> last_name u = ''service user 2'') (users d)
     = Some u \<Longrightarrow> get_default_user d now new_id = (d, Inr u)"
  by (simp add: get_default_user_def)

lemma get_default_user_Inr:
  assumes "get_default_user d now new_id = (d', Inr u)"
  shows "exec_first (\<lambda>u. first_name u = ''Default AI'' \<and> last_name u = ''service user 2'')
           (users d') = Some u"
    and "organizations d' = organizations d"
    and "organization_users d' = organization_users d"
proof -
  let ?P = "\<lambda>u. first_name u = ''Default AI'' \<and> last_name u = ''service user 2''"
  show "exec_first ?P (users d') = Some u"
  proof (cases "exec_first ?P (users d)")
    case (Some u0)
    with assms show ?thesis by (simp add: get_default_user_def)
  next
    case None
    then have fresh: "\<forall>r\<in>set (users d). \<not> ?P r" by (simp add: exec_first_None)
    from None assms obtain tbl where
      "commit_object User_pk (users d) u = (tbl, Inr u)" "d' = d\<lparr>users := users d @ [u]\<rparr>" "?P u"
      by (auto simp: get_default_user_def Let_def commit_object_eq split: if_splits)
    with fresh show ?thesis
      by (simp add: exec_first_def find_snoc_fresh)
  qed
  show "organizations d' = organizations d" "organization_users d' = organization_users d"
    using assms
    by (auto simp: get_default_user_def Let_def commit_object_eq split: option.splits if_splits)
qed

lemma default_organization_user_Inr:
  assumes "default_organization_user d organization now_user id_user now_member = (d', Inr r)"
  shows "r = organization"
    and "organizations d' = organizations d"
    and "default_organization_user d' organization now_user' id_user' now_member'
           = (d', Inr organization)"
proof -
  from assms obtain d1 user where
    u: "get_default_user d now_user id_user = (d1, Inr user)"
    by (cases "get_default_user d now_user id_user")
       (auto simp: default_organization_user_def split: sum.splits)
  let ?Q = "\<lambda>ou. OrganizationUser.user_id ou = User.user_id user"
  note found = get_default_user_Inr [OF u]
  have shape: "r = organization \<and> organizations d' = organizations d \<and> users d' = users d1 \<and>
     (\<exists>ou. exec_first ?Q (organization_users d') = Some ou)"
  proof (cases "exec_first ?Q (organization_users d1)")
    case (Some ou)
    with assms u found show ?thesis by (auto simp: default_organization_user_def)
  next
    case None
    then have fresh: "\<forall>r\<in>set (organization_users d1). \<not> ?Q r" by (simp add: exec_first_None)
    with None assms u found show ?thesis
      by (auto simp: default_organization_user_def Let_def commit_object_eq exec_first_def
            find_snoc_fresh split: if_splits)
  qed
  then show "r = organization" "organizations d' = organizations d" by simp_all
  from shape found(1) have "exec_first (\<lambda>u. first_name u = ''Default AI'' \<and> last_name u = ''service user 2'')
           (users d') = Some user" by simp
  then have "get_default_user d' now_user' id_user' = (d', Inr user)"
    by (rule get_default_user_found)
  with shape show "default_organization_user d' organization now_user' id_user' now_member'
           = (d', Inr organization)"
    by (auto simp: default_organization_user_def)
qed

text \<open>
  C2. When \<open>get_default_user\<close> has returned a user, a second call (whatever the clock
  and \<open>uuid4\<close> give it) returns the same user and leaves every table as the first call
  left it, so no second sentinel row is created. The same holds for
  \<open>get_default_organization\<close> and the organization it returns.
\<close>

theorem default_entities_idempotent:
  "(get_default_user d now new_id = (d', Inr u) \<longrightarrow>
      get_default_user d' now' new_id' = (d', Inr u)) \<and>
   (get_default_organization d now new_id now_user id_user now_member = (d', Inr organization) \<longrightarrow>
      get_default_organization d' now' new_id' now_user' id_user' now_member'
        = (d', Inr organization))"
proof (intro conjI impI)
  assume "get_default_user d now new_id = (d', Inr u)"
  then show "get_default_user d' now' new_id' = (d', Inr u)"
    by (intro get_default_user_found get_default_user_Inr(1))
next
  let ?P = "\<lambda>organization. Organization.name organization = ''Default AI service org 2''"
  assume a: "get_default_organization d now new_id now_user id_user now_member
               = (d', Inr organization)"
  have "\<exists>d0. default_organization_user d0 organization now_user id_user now_member
               = (d', Inr organization) \<and>
             exec_first ?P (organizations d0) = Some organization"
  proof (cases "exec_first ?P (organizations d)")
    case (Some org0)
    with a have b: "default_organization_user d org0 now_user id_user now_member
                      = (d', Inr organization)"
      by (simp add: get_default_organization_def)
    from default_organization_user_Inr(1) [OF b] b Some show ?thesis by auto
  next
    case None
    then have fresh: "\<forall>r\<in>set (organizations d). \<not> ?P r" by (simp add: exec_first_None)
    let ?new = "\<lparr>updated_at = None, created_at = now, organization_id = new_id,
                  Organization.name = ''Default AI service org 2'',
                  timezone = ''doesnt matter'',
                  Organization.status = ''doesnt matter''\<rparr>"
    let ?d0 = "d\<lparr>organizations := organizations d @ [?new]\<rparr>"
    from None a have b: "default_organization_user ?d0 ?new now_user id_user now_member
                      = (d', Inr organization)"
      by (auto simp: get_default_organization_def Let_def commit_object_eq split: if_splits)
    from fresh have "exec_first ?P (organizations ?d0) = Some ?new"
      by (simp add: exec_first_def find_snoc_fresh)
    with default_organization_user_Inr(1) [OF b] b show ?thesis by auto
  qed
  then obtain d0 where
    b: "default_organization_user d0 organization now_user id_user now_member
          = (d', Inr organization)"
    and f: "exec_first ?P (organizations d0) = Some organization"
    by blast
  from default_organization_user_Inr(2) [OF b] f
  have "exec_first ?P (organizations d') = Some organization" by simp
  with default_organization_user_Inr(3) [OF b]
  show "get_default_organization d' now' new_id' now_user' id_user' now_member'
        = (d', Inr organization)"
    by (simp add: get_default_organization_def)
qed

text \<open>Two calls of each, starting from the empty state.\<close>

theorem default_entities_idempotent_witness:
  "get_default_user empty_db 100 1 = (empty_db\<lparr>users := [example_user]\<rparr>, Inr example_user) \<and>
   get_default_user (empty_db\<lparr>users := [example_user]\<rparr>) 200 9
     = (empty_db\<lparr>users := [example_user]\<rparr>, Inr example_user) \<and>
   get_default_organization empty_db 101 2 100 1 104 = (default_db, Inr example_organization) \<and>
   get_default_organization default_db 201 8 200 9 204 = (default_db, Inr example_organization)"
proof -
  have u: "get_default_user empty_db 100 1
             = (empty_db\<lparr>users := [example_user]\<rparr>, Inr example_user)"
    by (simp add: get_default_user_def exec_first_def Let_def commit_object_def
          session_insert_def session_refresh_def User_pk_def empty_db_def example_user_def)
  have o: "get_default_organization empty_db 101 2 100 1 104
             = (default_db, Inr example_organization)"
    by (simp add: get_default_organization_def default_organization_user_def
          get_default_user_def exec_first_def Let_def commit_object_def
          session_insert_def session_refresh_def User_pk_def Organization_pk_def
          OrganizationUser_pk_def empty_db_def default_db_def example_user_def
          example_organization_def example_member_def)
  from u o
       default_entities_idempotent
         [where d = empty_db and now = 100 and new_id = 1
            and d' = "empty_db\<lparr>users := [example_user]\<rparr>" and u = example_user
            and now' = 200 and new_id' = 9]
       default_entities_idempotent
         [where d = empty_db and now = 101 and new_id = 2 and now_user = 100 and id_user = 1
            and now_member = 104 and d' = default_db and organization = example_organization
            and now' = 201 and new_id' = 8 and now_user' = 200 and id_user' = 9
            and now_member' = 204]
  show ?thesis by blast
qed

text \<open>What a returning \<open>get_default_organization\<close> does ensure: the default user has
  a membership row, and that row is in the returned organization when the default user
  had no membership row before the call.\<close>

lemma default_organization_user_membership:
  assumes "default_organization_user d organization now_user id_user now_member = (d', Inr r)"
  shows "\<exists>user ou.
           exec_first (\<lambda>u. first_name u = ''Default AI'' \<and> last_name u = ''service user 2'')
             (users d') = Some user \<and>
           ou \<in> set (organization_users d') \<and>
           OrganizationUser.user_id ou = User.user_id user \<and>
           ((\<forall>x\<in>set (organization_users d). OrganizationUser.user_id x \<noteq> User.user_id user)
              \<longrightarrow> organization_id ou = organization_id organization)"
proof -
  from assms obtain d1 user where
    u: "get_default_user d now_user id_user = (d1, Inr user)"
    by (cases "get_default_user d now_user id_user")
       (auto simp: default_organization_user_def split: sum.splits)
  let ?Q = "\<lambda>ou. OrganizationUser.user_id ou = User.user_id user"
  note found = get_default_user_Inr [OF u]
  show ?thesis
  proof (cases "exec_first ?Q (organization_users d1)")
    case (Some ou)
    with assms u have "d' = d1" by (simp add: default_organization_user_def)
    with exec_first_Some [OF Some] found show ?thesis by auto
  next
    case None
    let ?ou = "\<lparr>updated_at = None, created_at = now_member,
                 organization_id = organization_id organization,
                 OrganizationUser.user_id = User.user_id user,
                 OrganizationUser.status = ''doesnt matter''\<rparr>"
    from None assms u
    have "d' = d1\<lparr>organization_users := organization_users d1 @ [?ou]\<rparr>"
      by (auto simp: default_organization_user_def Let_def commit_object_eq split: if_splits)
    with found show ?thesis by (intro exI [of _ user] exI [of _ ?ou]) simp
  qed
qed

lemma get_default_organization_membership:
  assumes "get_default_organization d now new_id now_user id_user now_member
             = (d', Inr organization)"
  shows "\<exists>user ou.
           exec_first (\<lambda>u. first_name u = ''Default AI'' \<and> last_name u = ''service user 2'')
             (users d') = Some user \<and>
           ou \<in> set (organization_users d') \<and>
           OrganizationUser.user_id ou = User.user_id user \<and>
           ((\<forall>x\<in>set (organization_users d). OrganizationUser.user_id x \<noteq> User.user_id user)
              \<longrightarrow> organization_id ou = organization_id organization)"
proof -
  let ?P = "\<lambda>organization. Organization.name organization = ''Default AI service org 2''"
  have "\<exists>d0. default_organization_user d0 organization now_user id_user now_member
               = (d', Inr organization) \<and> organization_users d0 = organization_users d"
  proof (cases "exec_first ?P (organizations d)")
    case (Some org0)
    with assms have b: "default_organization_user d org0 now_user id_user now_member
                      = (d', Inr organization)"
      by (simp add: get_default_organization_def)
    from default_organization_user_Inr(1) [OF b] b show ?thesis by auto
  next
    case None
    let ?new = "\<lparr>updated_at = None, created_at = now, organization_id = new_id,
                  Organization.name = ''Default AI service org 2'',
                  timezone = ''doesnt matter'',
                  Organization.status = ''doesnt matter''\<rparr>"
    let ?d0 = "d\<lparr>organizations := organizations d @ [?new]\<rparr>"
    from None assms have b: "default_organization_user ?d0 ?new now_user id_user now_member
                      = (d', Inr organization)"
      by (auto simp: get_default_organization_def Let_def commit_object_eq split: if_splits)
    from default_organization_user_Inr(1) [OF b] b show ?thesis
      by (intro exI [of _ ?d0]) simp
  qed
  then obtain d0 where
    "default_organization_user d0 organization now_user id_user now_member
       = (d', Inr organization)" "organization_users d0 = organization_users d"
    by blast
  with default_organization_user_membership [of d0 organization now_user id_user now_member
         d' organization]
  show ?thesis by simp
qed

text \<open>
  C4 at the state where the default user and the default organization exist and the
  default user is a member of organization 3 only. \<open>get_default_organization\<close>
  returns the default organization and writes nothing: the membership query asks for
  the user alone and finds the membership in organization 3, so after the call no
  membership row links the default user to the returned organization.
\<close>

theorem get_default_organization_foreign_member:
  "get_default_organization foreign_member_db 201 8 200 9 204
     = (foreign_member_db, Inr example_organization) \<and>
   \<not> (\<exists>ou\<in>set (organization_users foreign_member_db).
          OrganizationUser.user_id ou = User.user_id example_user \<and>
          organization_id ou = organization_id example_organization)"
  by (simp add: get_default_organization_def default_organization_user_def
        get_default_user_def exec_first_def foreign_member_db_def empty_db_def example_user_def
        example_organization_def example_member_def)

section \<open>The message log\<close>

text \<open>\<open>order_by_desc\<close> permutes the rows and puts no row before one of a greater key;
  on rows whose keys increase strictly it is the reversal.\<close>

lemma order_by_desc_mset: "mset (order_by_desc key xs) = mset xs"
  by (simp add: order_by_desc_def)

lemma order_by_desc_sorted:
  "sorted_wrt (\<lambda>x y. key y \<le> key x) (order_by_desc key xs)"
proof -
  have "sorted (map (\<lambda>r. - key r) (order_by_desc key xs))"
    by (simp add: order_by_desc_def)
  then show ?thesis by (simp add: sorted_wrt_map)
qed

lemma order_by_desc_increasing:
  assumes "sorted_wrt (<) (map key xs)"
  shows "order_by_desc key xs = rev xs"
  unfolding order_by_desc_def
proof (rule sort_key_inj_key_eq)
  show "mset xs = mset (rev xs)" by simp
  from assms have "distinct (map key xs)" by (simp add: strict_sorted_iff)
  then have "inj_on key (set xs)" by (simp add: distinct_map)
  then show "inj_on (\<lambda>r. - key r) (set xs)" by (auto simp: inj_on_def)
  from assms have "sorted (map key xs)" by (rule strict_sorted_imp_sorted)
  then have "sorted_wrt (\<lambda>x y. key x \<le> key y) xs" by (simp add: sorted_wrt_map)
  then show "sorted (map (\<lambda>r. - key r) (rev xs))"
    by (simp add: sorted_wrt_map sorted_wrt_rev)
qed

text \<open>The newest \<open>n\<close> rows, oldest first.\<close>

lemma newest_first_n:
  fixes key :: "'r \<Rightarrow> datetime"
  defines "rs \<equiv> \<lambda>n xs. rev (take n (order_by_desc key xs))"
  shows "length (rs n xs) = min (length xs) n"
    and "sorted (map key (rs n xs))"
    and "mset (rs n xs) \<subseteq># mset xs"
    and "\<forall>x\<in>#(mset xs - mset (rs n xs)). \<forall>r\<in>set (rs n xs). key x \<le> key r"
    and "sorted_wrt (<) (map key xs) \<Longrightarrow> rs n xs = drop (length xs - n) xs"
proof -
  let ?ys = "order_by_desc key xs"
  have len: "length ?ys = length xs"
    by (metis order_by_desc_mset size_mset)
  show "length (rs n xs) = min (length xs) n" by (simp add: rs_def len)
  have s: "sorted_wrt (\<lambda>x y. key y \<le> key x) (take n ?ys @ drop n ?ys)"
    using order_by_desc_sorted [of key xs] by simp
  then show "sorted (map key (rs n xs))"
    by (simp add: rs_def sorted_wrt_map sorted_wrt_rev sorted_wrt_append del: append_take_drop_id)
  have split: "mset xs = mset (take n ?ys) + mset (drop n ?ys)"
    by (metis append_take_drop_id mset_append order_by_desc_mset)
  then show "mset (rs n xs) \<subseteq># mset xs" by (simp add: rs_def)
  from split have "mset xs - mset (rs n xs) = mset (drop n ?ys)" by (simp add: rs_def)
  with s show "\<forall>x\<in>#(mset xs - mset (rs n xs)). \<forall>r\<in>set (rs n xs). key x \<le> key r"
    by (auto simp: rs_def sorted_wrt_append simp del: append_take_drop_id)
  show "rs n xs = drop (length xs - n) xs" if "sorted_wrt (<) (map key xs)"
    using that by (simp add: rs_def order_by_desc_increasing rev_take)
qed

text \<open>A returning \<open>create_chat_message\<close> puts the message it returns last in the table,
  with the clock reading as its \<open>created_at\<close>; a run of returning calls appends the
  messages in the order of the calls.\<close>

lemma create_chat_message_Inr:
  assumes "create_chat_message d now new_id oid cid msg_type msg_content mid owner args
             = (d', Inr m)"
  shows "d' = d\<lparr>chat_messages := chat_messages d @ [m]\<rparr>"
    and "created_at m = now"
    and "ChatMessage.chat_id m = cid"
  using assms
  by (auto simp: create_chat_message_def Let_def commit_object_eq split: if_splits)

lemma create_chat_messages_Inr:
  "create_chat_messages d calls = (d', Inr ms) \<Longrightarrow>
     d' = d\<lparr>chat_messages := chat_messages d @ ms\<rparr> \<and>
     map created_at ms = map call_now calls \<and>
     map ChatMessage.chat_id ms = map call_chat_id calls"
proof (induction calls arbitrary: d ms)
  case Nil
  then show ?case by simp
next
  case (Cons c cs)
  from Cons.prems obtain d1 m ms' where
    first: "create_chat_message d (call_now c) (call_uuid4 c) (call_organization_id c)
             (call_chat_id c) (call_type c) (call_content c) (call_message_id c)
             (call_owner_user_id c) (call_arguments c) = (d1, Inr m)"
    and rest: "create_chat_messages d1 cs = (d', Inr ms')"
    and ms: "ms = m # ms'"
    by (auto split: prod.splits sum.splits)
  from create_chat_message_Inr [OF first] Cons.IH [OF rest] ms
  show ?case by simp
qed

text \<open>
  C1. Take a state in which chat \<open>cid\<close> has no message, and a sequence of
  \<open>create_chat_message\<close> calls that all return (for this chat or for others); let
  \<open>appended\<close> be the returned messages of chat \<open>cid\<close>, in the order of the calls;
  each carries the clock reading of its call as \<open>created_at\<close>. Then
  \<open>get_chat_messages cid\<close> returns, leaves the state as it is, and its result \<open>rs\<close>
  has \<open>min N 40\<close> messages for \<open>N = length appended\<close>, is in ascending order of
  \<open>created_at\<close>, consists of messages of \<open>appended\<close>, and leaves out only messages
  that are no newer than every message it holds: it is the 40 most recently created
  ones, oldest first. When the clock readings of the chat's messages increase strictly,
  \<open>rs\<close> is exactly the last \<open>min N 40\<close> messages of \<open>appended\<close>, in the order they were
  appended.
\<close>

theorem get_chat_messages_newest_40:
  assumes "create_chat_messages d calls = (d', Inr ms)"
    and "\<forall>m\<in>set (chat_messages d). ChatMessage.chat_id m \<noteq> cid"
  shows "map created_at ms = map call_now calls \<and>
         map ChatMessage.chat_id ms = map call_chat_id calls \<and>
         (\<exists>rs. get_chat_messages d' cid = (d', Inr rs) \<and>
            (let appended = filter (\<lambda>m. ChatMessage.chat_id m = cid) ms
             in length rs = min (length appended) 40 \<and>
                sorted (map created_at rs) \<and>
                mset rs \<subseteq># mset appended \<and>
                (\<forall>m\<in>#(mset appended - mset rs). \<forall>r\<in>set rs. created_at m \<le> created_at r) \<and>
                (sorted_wrt (<) (map created_at appended) \<longrightarrow>
                   rs = drop (length appended - 40) appended)))"
proof -
  let ?P = "\<lambda>m. ChatMessage.chat_id m = cid"
  let ?app = "filter ?P ms"
  let ?rs = "rev (take 40 (order_by_desc created_at ?app))"
  note run = create_chat_messages_Inr [OF assms(1)]
  from assms(2) have "filter ?P (chat_messages d) = []" by (simp add: filter_empty_conv)
  with run have "filter ?P (chat_messages d') = ?app" by simp
  then have "get_chat_messages d' cid = (d', Inr ?rs)"
    by (simp add: get_chat_messages_def exec_all_def Let_def)
  with run newest_first_n [where key = created_at and n = 40 and xs = ?app] show ?thesis
    by (simp add: Let_def)
qed

text \<open>41 messages appended to chat 4 of the empty state: the call returns the last
  40 of them, in the order they were appended, and leaves out the first.\<close>

theorem get_chat_messages_newest_40_witness:
  "create_chat_messages empty_db example_calls = (example_log_db, Inr example_messages) \<and>
   length example_messages = 41 \<and>
   get_chat_messages example_log_db 4 = (example_log_db, Inr (drop 1 example_messages)) \<and>
   length (drop 1 example_messages) = 40"
proof -
  have run: "create_chat_messages empty_db example_calls = (example_log_db, Inr example_messages)"
    unfolding example_calls_def example_messages_def example_log_db_def
    by code_simp
  have none: "\<forall>m\<in>set (chat_messages empty_db). ChatMessage.chat_id m \<noteq> 4"
    by (simp add: empty_db_def)
  have len: "length example_messages = 41"
    by (simp add: example_messages_def)
  have app: "filter (\<lambda>m. ChatMessage.chat_id m = 4) example_messages = example_messages"
    by (simp add: example_messages_def example_message_def filter_map o_def)
  have "map created_at example_messages = map int [0..<41]"
    by (simp add: example_messages_def example_message_def)
  then have inc: "sorted_wrt (<) (map created_at example_messages)"
    by (simp add: sorted_wrt_map del: upt_Suc)
  from get_chat_messages_newest_40 [OF run none]
  obtain rs where
    g: "get_chat_messages example_log_db 4 = (example_log_db, Inr rs)" and
    r: "sorted_wrt (<) (map created_at (filter (\<lambda>m. ChatMessage.chat_id m = 4) example_messages))
          \<longrightarrow> rs = drop (length (filter (\<lambda>m. ChatMessage.chat_id m = 4) example_messages) - 40)
                       (filter (\<lambda>m. ChatMessage.chat_id m = 4) example_messages)"
    unfolding Let_def by blast
  from r inc have "rs = drop 1 example_messages"
    unfolding app len by simp
  with g
  have "get_chat_messages example_log_db 4 = (example_log_db, Inr (drop 1 example_messages))"
    by simp
  with run len show ?thesis by simp
qed

end
